theory Spec2Isabelle
  imports Main "HOL-Library.Word"
begin

section \<open>The interface declarations of package resource\<close>

text \<open>
  The file pkg/resource/interfaces.go consists of interface type declarations only.
  They are embedded as data: an interface is the list of its elements, an element is
  either a method signature, an embedded interface of this file, or an embedded
  interface of another module (metav1.Object, runtime.Object, client.ObjectList),
  whose own methods are not declared in this repository and are kept by name.
\<close>

datatype iface =
    Conditioned
  | ClaimReferencer
  | ManagedResourceReferencer
  | LocalConnectionSecretWriterTo
  | ConnectionSecretWriterTo
  | ConnectionDetailsPublisherTo
  | Manageable
  | Orphanable
  | CustomReconciliation
  | ProviderConfigReferencer
  | RequiredProviderConfigReferencer
  | RequiredTypedResourceReferencer
  | Finalizer
  | CompositionSelector
  | CompositionReferencer
  | CompositionRevisionReferencer
  | CompositionRevisionSelector
  | CompositionUpdater
  | CompositeResourceDeleter
  | ComposedResourcesReferencer
  | CompositeResourceReferencer
  | EnvironmentConfigReferencer
  | UserCounter
  | ConnectionDetailsPublishedTimer
  | ReconciliationObserver
  | Object
  | Managed
  | ManagedList
  | ProviderConfig
  | ProviderConfigUsage
  | ProviderConfigUsageList
  | Composite
  | Composed
  | CompositeClaim

text \<open>
  The types that occur in the signatures: a type named by a (qualified) identifier, an
  interface of this file, a pointer \<open>*T\<close>, a slice \<open>[]T\<close> and a variadic parameter
  \<open>...T\<close>.
\<close>

datatype gotype =
    Named string
  | Iface iface
  | Pointer gotype
  | Slice gotype
  | Variadic gotype

datatype msig = Sig (mname: string) (params: "gotype list") (results: "gotype list")

datatype elem = Method msig | Embed iface | External string

fun decl :: "iface \<Rightarrow> elem list" where
  "decl Conditioned =
    [Method (Sig ''SetConditions'' [Variadic (Named ''xpv1.Condition'')] []),
     Method (Sig ''GetCondition'' [Named ''xpv1.ConditionType''] [Named ''xpv1.Condition''])]"
| "decl ClaimReferencer =
    [Method (Sig ''SetClaimReference'' [Pointer (Named ''claim.Reference'')] []),
     Method (Sig ''GetClaimReference'' [] [Pointer (Named ''claim.Reference'')])]"
| "decl ManagedResourceReferencer =
    [Method (Sig ''SetResourceReference'' [Pointer (Named ''corev1.ObjectReference'')] []),
     Method (Sig ''GetResourceReference'' [] [Pointer (Named ''corev1.ObjectReference'')])]"
| "decl LocalConnectionSecretWriterTo =
    [Method (Sig ''SetWriteConnectionSecretToReference''
       [Pointer (Named ''xpv1.LocalSecretReference'')] []),
     Method (Sig ''GetWriteConnectionSecretToReference''
       [] [Pointer (Named ''xpv1.LocalSecretReference'')])]"
| "decl ConnectionSecretWriterTo =
    [Method (Sig ''SetWriteConnectionSecretToReference''
       [Pointer (Named ''xpv1.SecretReference'')] []),
     Method (Sig ''GetWriteConnectionSecretToReference''
       [] [Pointer (Named ''xpv1.SecretReference'')])]"
| "decl ConnectionDetailsPublisherTo =
    [Method (Sig ''SetPublishConnectionDetailsTo''
       [Pointer (Named ''xpv1.PublishConnectionDetailsTo'')] []),
     Method (Sig ''GetPublishConnectionDetailsTo''
       [] [Pointer (Named ''xpv1.PublishConnectionDetailsTo'')])]"
| "decl Manageable =
    [Method (Sig ''SetManagementPolicies'' [Named ''xpv1.ManagementPolicies''] []),
     Method (Sig ''GetManagementPolicies'' [] [Named ''xpv1.ManagementPolicies''])]"
| "decl Orphanable =
    [Method (Sig ''SetDeletionPolicy'' [Named ''xpv1.DeletionPolicy''] []),
     Method (Sig ''GetDeletionPolicy'' [] [Named ''xpv1.DeletionPolicy''])]"
| "decl CustomReconciliation =
    [Method (Sig ''SetReconciliationPolicy'' [Pointer (Named ''xpv1.ReconciliationPolicy'')] []),
     Method (Sig ''GetReconciliationPolicy'' [] [Pointer (Named ''xpv1.ReconciliationPolicy'')])]"
| "decl ProviderConfigReferencer =
    [Method (Sig ''GetProviderConfigReference'' [] [Pointer (Named ''xpv1.Reference'')]),
     Method (Sig ''SetProviderConfigReference'' [Pointer (Named ''xpv1.Reference'')] [])]"
| "decl RequiredProviderConfigReferencer =
    [Method (Sig ''GetProviderConfigReference'' [] [Named ''xpv1.Reference'']),
     Method (Sig ''SetProviderConfigReference'' [Named ''xpv1.Reference''] [])]"
| "decl RequiredTypedResourceReferencer =
    [Method (Sig ''SetResourceReference'' [Named ''xpv1.TypedReference''] []),
     Method (Sig ''GetResourceReference'' [] [Named ''xpv1.TypedReference''])]"
| "decl Finalizer =
    [Method (Sig ''AddFinalizer'' [Named ''context.Context'', Iface Object] [Named ''error'']),
     Method (Sig ''RemoveFinalizer'' [Named ''context.Context'', Iface Object] [Named ''error''])]"
| "decl CompositionSelector =
    [Method (Sig ''SetCompositionSelector'' [Pointer (Named ''metav1.LabelSelector'')] []),
     Method (Sig ''GetCompositionSelector'' [] [Pointer (Named ''metav1.LabelSelector'')])]"
| "decl CompositionReferencer =
    [Method (Sig ''SetCompositionReference'' [Pointer (Named ''corev1.ObjectReference'')] []),
     Method (Sig ''GetCompositionReference'' [] [Pointer (Named ''corev1.ObjectReference'')])]"
| "decl CompositionRevisionReferencer =
    [Method (Sig ''SetCompositionRevisionReference''
       [Pointer (Named ''corev1.ObjectReference'')] []),
     Method (Sig ''GetCompositionRevisionReference''
       [] [Pointer (Named ''corev1.ObjectReference'')])]"
| "decl CompositionRevisionSelector =
    [Method (Sig ''SetCompositionRevisionSelector''
       [Pointer (Named ''metav1.LabelSelector'')] []),
     Method (Sig ''GetCompositionRevisionSelector''
       [] [Pointer (Named ''metav1.LabelSelector'')])]"
| "decl CompositionUpdater =
    [Method (Sig ''SetCompositionUpdatePolicy'' [Pointer (Named ''xpv1.UpdatePolicy'')] []),
     Method (Sig ''GetCompositionUpdatePolicy'' [] [Pointer (Named ''xpv1.UpdatePolicy'')])]"
| "decl CompositeResourceDeleter =
    [Method (Sig ''SetCompositeDeletePolicy''
       [Pointer (Named ''xpv1.CompositeDeletePolicy'')] []),
     Method (Sig ''GetCompositeDeletePolicy''
       [] [Pointer (Named ''xpv1.CompositeDeletePolicy'')])]"
| "decl ComposedResourcesReferencer =
    [Method (Sig ''SetResourceReferences'' [Slice (Named ''corev1.ObjectReference'')] []),
     Method (Sig ''GetResourceReferences'' [] [Slice (Named ''corev1.ObjectReference'')])]"
| "decl CompositeResourceReferencer =
    [Method (Sig ''SetResourceReference'' [Pointer (Named ''corev1.ObjectReference'')] []),
     Method (Sig ''GetResourceReference'' [] [Pointer (Named ''corev1.ObjectReference'')])]"
| "decl EnvironmentConfigReferencer =
    [Method (Sig ''SetEnvironmentConfigReferences''
       [Slice (Named ''corev1.ObjectReference'')] []),
     Method (Sig ''GetEnvironmentConfigReferences''
       [] [Slice (Named ''corev1.ObjectReference'')])]"
| "decl UserCounter =
    [Method (Sig ''SetUsers'' [Named ''int64''] []),
     Method (Sig ''GetUsers'' [] [Named ''int64''])]"
| "decl ConnectionDetailsPublishedTimer =
    [Method (Sig ''SetConnectionDetailsLastPublishedTime''
       [Pointer (Named ''metav1.Time'')] []),
     Method (Sig ''GetConnectionDetailsLastPublishedTime''
       [] [Pointer (Named ''metav1.Time'')])]"
| "decl ReconciliationObserver =
    [Method (Sig ''SetObservedGeneration'' [Named ''int64''] []),
     Method (Sig ''GetObservedGeneration'' [] [Named ''int64''])]"
| "decl Object =
    [External ''metav1.Object'',
     External ''runtime.Object'']"
| "decl Managed =
    [Embed Object,
     Embed ProviderConfigReferencer,
     Embed ConnectionSecretWriterTo,
     Embed ConnectionDetailsPublisherTo,
     Embed Manageable,
     Embed Orphanable,
     Embed CustomReconciliation,
     Embed Conditioned]"
| "decl ManagedList =
    [External ''client.ObjectList'',
     Method (Sig ''GetItems'' [] [Slice (Iface Managed)])]"
| "decl ProviderConfig =
    [Embed Object,
     Embed UserCounter,
     Embed Conditioned]"
| "decl ProviderConfigUsage =
    [Embed Object,
     Embed RequiredProviderConfigReferencer,
     Embed RequiredTypedResourceReferencer]"
| "decl ProviderConfigUsageList =
    [External ''client.ObjectList'',
     Method (Sig ''GetItems'' [] [Slice (Iface ProviderConfigUsage)])]"
| "decl Composite =
    [Embed Object,
     Embed CompositionSelector,
     Embed CompositionReferencer,
     Embed CompositionUpdater,
     Embed CompositionRevisionReferencer,
     Embed CompositionRevisionSelector,
     Embed ComposedResourcesReferencer,
     Embed EnvironmentConfigReferencer,
     Embed ClaimReferencer,
     Embed ConnectionSecretWriterTo,
     Embed ConnectionDetailsPublisherTo,
     Embed Conditioned,
     Embed ConnectionDetailsPublishedTimer,
     Embed ReconciliationObserver]"
| "decl Composed =
    [Embed Object,
     Embed Conditioned,
     Embed ConnectionSecretWriterTo,
     Embed ConnectionDetailsPublisherTo,
     Embed ReconciliationObserver]"
| "decl CompositeClaim =
    [Embed Object,
     Embed CompositionSelector,
     Embed CompositionReferencer,
     Embed CompositionUpdater,
     Embed CompositionRevisionReferencer,
     Embed CompositionRevisionSelector,
     Embed CompositeResourceDeleter,
     Embed CompositeResourceReferencer,
     Embed LocalConnectionSecretWriterTo,
     Embed ConnectionDetailsPublisherTo,
     Embed Conditioned,
     Embed ConnectionDetailsPublishedTimer,
     Embed ReconciliationObserver]"

subsection \<open>Method sets\<close>

fun elem_methods :: "elem \<Rightarrow> msig list" where
  "elem_methods (Method m) = [m]"
| "elem_methods (Embed j) = []"
| "elem_methods (External x) = []"

fun elem_embeds :: "elem \<Rightarrow> iface list" where
  "elem_embeds (Method m) = []"
| "elem_embeds (Embed j) = [j]"
| "elem_embeds (External x) = []"

fun elem_externals :: "elem \<Rightarrow> string list" where
  "elem_externals (Method m) = []"
| "elem_externals (Embed j) = []"
| "elem_externals (External x) = [x]"

definition declared :: "iface \<Rightarrow> msig list" where
  "declared i = concat (map elem_methods (decl i))"

definition embedded :: "iface \<Rightarrow> iface list" where
  "embedded i = concat (map elem_embeds (decl i))"

definition imported :: "iface \<Rightarrow> string list" where
  "imported i = concat (map elem_externals (decl i))"

text \<open>
  The nesting depth of embedding: the capabilities embed nothing of this file, the
  entities embed capabilities and Object.
\<close>

fun depth :: "iface \<Rightarrow> nat" where
  "depth Managed = 1"
| "depth ProviderConfig = 1"
| "depth ProviderConfigUsage = 1"
| "depth Composite = 1"
| "depth Composed = 1"
| "depth CompositeClaim = 1"
| "depth i = 0"

lemma embedded_depth: "j \<in> set (embedded i) \<Longrightarrow> depth j < depth i"
  by (cases i) (auto simp: embedded_def)

text \<open>
  The method set of an interface: its own methods and those of the interfaces it
  embeds, transitively. The methods of embedded interfaces of other modules are not
  known here; \<open>externals\<close> lists those interfaces.
\<close>

function method_set :: "iface \<Rightarrow> msig list" where
  "method_set i = declared i @ concat (map method_set (embedded i))"
  by pat_completeness auto
termination
  by (relation "measure depth") (auto simp: embedded_depth)

declare method_set.simps [simp del]

function capabilities :: "iface \<Rightarrow> iface list" where
  "capabilities i = embedded i @ concat (map capabilities (embedded i))"
  by pat_completeness auto
termination
  by (relation "measure depth") (auto simp: embedded_depth)

declare capabilities.simps [simp del]

function externals :: "iface \<Rightarrow> string list" where
  "externals i = imported i @ concat (map externals (embedded i))"
  by pat_completeness auto
termination
  by (relation "measure depth") (auto simp: embedded_depth)

declare externals.simps [simp del]

text \<open>The signatures that an interface has for a method name, and their types.\<close>

definition sigs :: "string \<Rightarrow> iface \<Rightarrow> msig list" where
  "sigs n i = filter (\<lambda>m. mname m = n) (method_set i)"

definition sig_types :: "msig \<Rightarrow> gotype list" where
  "sig_types m = params m @ results m"

text \<open>
  Go's interface satisfaction is structural: whatever implements \<open>i\<close> also implements
  \<open>c\<close> when the method set of \<open>c\<close> is part of that of \<open>i\<close>.
\<close>

definition provides :: "iface \<Rightarrow> iface \<Rightarrow> bool" where
  "provides i c =
    (set (method_set c) \<subseteq> set (method_set i) \<and> set (externals c) \<subseteq> set (externals i))"

text \<open>The interfaces of the file that stand for the entities of the data model.\<close>

definition entities :: "iface list" where
  "entities = [Managed, ProviderConfig, ProviderConfigUsage, Composite, Composed, CompositeClaim]"

section \<open>Values of the signature types\<close>

text \<open>
  \<open>nil\<close> is a value of every pointer, slice and interface type. Whether it is a value
  of a type named by an identifier depends on that type's declaration, which lies
  outside this file: the first argument tells for which names it is.
\<close>

fun is_pointer :: "gotype \<Rightarrow> bool" where
  "is_pointer (Pointer T) = True"
| "is_pointer T = False"

fun nilable :: "(string \<Rightarrow> bool) \<Rightarrow> gotype \<Rightarrow> bool" where
  "nilable ne (Named n) = ne n"
| "nilable ne (Iface i) = True"
| "nilable ne (Pointer T) = True"
| "nilable ne (Slice T) = True"
| "nilable ne (Variadic T) = True"

text \<open>
  The values: \<open>nil\<close>, a value of a named type (with its content), a pointer to a value
  and a slice of values. What an interface variable holds is not restricted here.
\<close>

datatype goval = VNil | VNamed string string | VPtr goval | VSlice "goval list"

fun inhabits :: "(string \<Rightarrow> bool) \<Rightarrow> gotype \<Rightarrow> goval \<Rightarrow> bool" where
  "inhabits ne T VNil = nilable ne T"
| "inhabits ne (Named n) (VNamed m x) = (m = n)"
| "inhabits ne (Pointer T) (VPtr v) = inhabits ne T v"
| "inhabits ne (Slice T) (VSlice vs) = list_all (inhabits ne T) vs"
| "inhabits ne (Variadic T) (VSlice vs) = list_all (inhabits ne T) vs"
| "inhabits ne (Iface i) v = True"
| "inhabits ne T v = False"

text \<open>
  An implementer of one of the Set/Get capabilities, over its own state: what the
  getter returns in a state and how the setter changes the state. \<open>run\<close> performs a
  sequence of calls and collects what the getter returned.
\<close>

datatype call = SetCall goval | GetCall

record 's accessor =
  getter :: "'s \<Rightarrow> goval"
  setter :: "goval \<Rightarrow> 's \<Rightarrow> 's"

fun run :: "'s accessor \<Rightarrow> 's \<Rightarrow> call list \<Rightarrow> goval list" where
  "run a s [] = []"
| "run a s (SetCall v # cs) = run a (setter a v s) cs"
| "run a s (GetCall # cs) = getter a s # run a s cs"

text \<open>The getter of an implementer returns a value of its declared result type.\<close>

definition getter_typed :: "(string \<Rightarrow> bool) \<Rightarrow> gotype \<Rightarrow> 's accessor \<Rightarrow> bool" where
  "getter_typed ne T a = (\<forall>s. inhabits ne T (getter a s))"

text \<open>
  The two ways to implement a reference capability with a struct field: a field of the
  struct type itself, and a field of pointer type. The state is the field.
\<close>

definition value_field :: "string \<Rightarrow> string accessor" where
  "value_field n =
    \<lparr>getter = (\<lambda>s. VNamed n s),
     setter = (\<lambda>v s. case v of VNamed m x \<Rightarrow> x | _ \<Rightarrow> s)\<rparr>"

definition pointer_field :: "string \<Rightarrow> string option accessor" where
  "pointer_field n =
    \<lparr>getter = (\<lambda>s. case s of None \<Rightarrow> VNil | Some x \<Rightarrow> VPtr (VNamed n x)),
     setter = (\<lambda>v s. case v of VNil \<Rightarrow> None | VPtr (VNamed m x) \<Rightarrow> Some x | _ \<Rightarrow> s)\<rparr>"

text \<open>
  The named types of the signatures that are interface types of the Go language and
  its standard library.
\<close>

definition builtin_interfaces :: "string \<Rightarrow> bool" where
  "builtin_interfaces n = (n \<in> set [''error'', ''context.Context''])"

section \<open>Vocabulary of the data model\<close>

definition result_types :: "string \<Rightarrow> iface \<Rightarrow> gotype list" where
  "result_types n i = concat (map results (sigs n i))"

text \<open>The type name at the bottom of a pointer, slice or variadic type.\<close>

fun base_name :: "gotype \<Rightarrow> string option" where
  "base_name (Named n) = Some n"
| "base_name (Iface i) = None"
| "base_name (Pointer T) = base_name T"
| "base_name (Slice T) = base_name T"
| "base_name (Variadic T) = base_name T"

text \<open>
  The capabilities of the file by which one resource refers to another one (a claim, a
  composite, composed or managed resource, a composition or its revision, an environment
  config, a provider config), and the types by which an object refers to another one:
  those that the getters of these capabilities return, and the owner reference of the
  Kubernetes object metadata.
\<close>

definition referencers :: "iface list" where
  "referencers =
    [ClaimReferencer, ManagedResourceReferencer, ProviderConfigReferencer,
     RequiredProviderConfigReferencer, RequiredTypedResourceReferencer,
     CompositionReferencer, CompositionRevisionReferencer, ComposedResourcesReferencer,
     CompositeResourceReferencer, EnvironmentConfigReferencer]"

definition reference_types :: "string option list" where
  "reference_types =
    remdups (concat (map (\<lambda>c. concat (map (map base_name \<circ> results) (method_set c))) referencers))
      @ [Some ''metav1.OwnerReference'']"

definition yields_reference :: "msig \<Rightarrow> bool" where
  "yields_reference m = list_ex (\<lambda>T. base_name T \<in> set reference_types) (results m)"

text \<open>
  The interfaces \<open>metav1.Object\<close> and \<open>runtime.Object\<close>, which Object embeds, are
  declared in the module k8s.io/apimachinery that interfaces.go imports, not in this
  repository. The whole method set of an interface is its method set in this package
  together with what the embedded interfaces of other modules declare, given by the
  first argument.
\<close>

definition full_method_set :: "(string \<Rightarrow> msig list) \<Rightarrow> iface \<Rightarrow> msig list" where
  "full_method_set ext i = method_set i @ concat (map ext (externals i))"

text \<open>
  Of the methods that \<open>metav1.Object\<close> declares, the accessors of the owner
  references: the Kubernetes object metadata by which an object names the objects that
  own it.
\<close>

definition owner_references :: "string \<Rightarrow> msig list" where
  "owner_references x =
    (if x = ''metav1.Object''
     then [Sig ''GetOwnerReferences'' [] [Slice (Named ''metav1.OwnerReference'')],
           Sig ''SetOwnerReferences'' [Slice (Named ''metav1.OwnerReference'')] []]
     else [])"

text \<open>The five capabilities that select a composition.\<close>

definition composition_selection :: "iface list" where
  "composition_selection =
    [CompositionSelector, CompositionReferencer, CompositionUpdater,
     CompositionRevisionReferencer, CompositionRevisionSelector]"

text \<open>
  The data model's list of what a Composite holds, each item with the capability of the
  file that stands for it.
\<close>

definition composite_data_model :: "(string \<times> iface list) list" where
  "composite_data_model =
    [(''claim reference'', [ClaimReferencer]),
     (''composition selector'', [CompositionSelector]),
     (''composition reference'', [CompositionReferencer]),
     (''pinned composition revision'', [CompositionRevisionReferencer]),
     (''composition revision selector'', [CompositionRevisionSelector]),
     (''update policy'', [CompositionUpdater]),
     (''composed resource references'', [ComposedResourcesReferencer]),
     (''environment config references'', [EnvironmentConfigReferencer]),
     (''connection-secret destination'', [ConnectionSecretWriterTo]),
     (''last published connection details time'', [ConnectionDetailsPublishedTimer]),
     (''observed generation'', [ReconciliationObserver]),
     (''conditions'', [Conditioned])]"

section \<open>Required and optional references\<close>

lemma nil_not_inhabits: "\<not> nilable ne T \<Longrightarrow> inhabits ne T v \<Longrightarrow> v \<noteq> VNil"
  by (cases v) auto

lemma run_typed: "getter_typed ne T a \<Longrightarrow> list_all (inhabits ne T) (run a s cs)"
proof (induction cs arbitrary: s)
  case Nil
  then show ?case by simp
next
  case (Cons c cs)
  then show ?case by (cases c) (auto simp: getter_typed_def)
qed

lemma run_never_nil:
  assumes "\<not> nilable ne T" and "getter_typed ne T a"
  shows "VNil \<notin> set (run a s cs)"
proof
  assume "VNil \<in> set (run a s cs)"
  moreover have "list_all (inhabits ne T) (run a s cs)"
    using assms(2) by (rule run_typed)
  ultimately have "nilable ne T"
    by (auto simp: list_all_iff)
  with assms(1) show False
    by simp
qed

lemma pointer_field_typed: "getter_typed ne (Pointer (Named n)) (pointer_field n)"
  by (simp add: getter_typed_def pointer_field_def split: option.splits)

lemma value_field_typed: "getter_typed ne (Named n) (value_field n)"
  by (simp add: getter_typed_def value_field_def)

text \<open>
  Claim C2, as stated: the provider config reference that a Managed resource gives
  through its referencer capability can never be nil. It fails: the getter of Managed
  has the result type \<open>*xpv1.Reference\<close>, and an implementer that keeps the reference
  in a field of that type returns nil once nil has been set.
\<close>

theorem managed_reference_required_counterexample:
  "result_types ''GetProviderConfigReference'' Managed = [Pointer (Named ''xpv1.Reference'')]
   \<and> getter_typed builtin_interfaces (Pointer (Named ''xpv1.Reference''))
        (pointer_field ''xpv1.Reference'')
   \<and> run (pointer_field ''xpv1.Reference'') (Some ''default'') [GetCall, SetCall VNil, GetCall]
       = [VPtr (VNamed ''xpv1.Reference'' ''default''), VNil]"
proof (intro conjI)
  show "result_types ''GetProviderConfigReference'' Managed = [Pointer (Named ''xpv1.Reference'')]"
    by code_simp
  show "getter_typed builtin_interfaces (Pointer (Named ''xpv1.Reference''))
        (pointer_field ''xpv1.Reference'')"
    by (rule pointer_field_typed)
  show "run (pointer_field ''xpv1.Reference'') (Some ''default'') [GetCall, SetCall VNil, GetCall]
       = [VPtr (VNamed ''xpv1.Reference'' ''default''), VNil]"
    by (simp add: pointer_field_def)
qed

text \<open>
  Claim C2, amended: a Managed resource has the capability ProviderConfigReferencer,
  whose getter returns and whose setter takes the pointer \<open>*xpv1.Reference\<close>; it does
  not provide RequiredProviderConfigReferencer, and nil is a value of its reference.
  Among the entities, Managed alone provides ProviderConfigReferencer and
  ProviderConfigUsage alone provides RequiredProviderConfigReferencer.
\<close>

theorem managed_provider_config_reference_optional:
  "sigs ''GetProviderConfigReference'' Managed
     = [Sig ''GetProviderConfigReference'' [] [Pointer (Named ''xpv1.Reference'')]]
   \<and> sigs ''SetProviderConfigReference'' Managed
     = [Sig ''SetProviderConfigReference'' [Pointer (Named ''xpv1.Reference'')] []]
   \<and> filter (\<lambda>c. provides Managed c) [ProviderConfigReferencer, RequiredProviderConfigReferencer]
     = [ProviderConfigReferencer]
   \<and> filter (\<lambda>e. provides e ProviderConfigReferencer) entities = [Managed]
   \<and> filter (\<lambda>e. provides e RequiredProviderConfigReferencer) entities = [ProviderConfigUsage]
   \<and> inhabits ne (Pointer (Named ''xpv1.Reference'')) VNil"
proof (intro conjI)
  show "sigs ''GetProviderConfigReference'' Managed
     = [Sig ''GetProviderConfigReference'' [] [Pointer (Named ''xpv1.Reference'')]]"
    by code_simp
  show "sigs ''SetProviderConfigReference'' Managed
     = [Sig ''SetProviderConfigReference'' [Pointer (Named ''xpv1.Reference'')] []]"
    by code_simp
  show "filter (\<lambda>c. provides Managed c) [ProviderConfigReferencer, RequiredProviderConfigReferencer]
     = [ProviderConfigReferencer]"
    by code_simp
  show "filter (\<lambda>e. provides e ProviderConfigReferencer) entities = [Managed]"
    by code_simp
  show "filter (\<lambda>e. provides e RequiredProviderConfigReferencer) entities = [ProviderConfigUsage]"
    by code_simp
  show "inhabits ne (Pointer (Named ''xpv1.Reference'')) VNil"
    by simp
qed

text \<open>
  Claim C3: both references of a ProviderConfigUsage are required. Its getters return
  the plain types \<open>xpv1.Reference\<close> and \<open>xpv1.TypedReference\<close> (one result each, no
  pointer and no slice), its setters take them, it provides none of the optional
  (pointer) variants, and nil is not a value of either type, provided that the two
  names are declared as types without nil (they are structs).
\<close>

theorem usage_references_required:
  assumes "\<not> ne ''xpv1.Reference''" and "\<not> ne ''xpv1.TypedReference''"
  shows "sigs ''GetProviderConfigReference'' ProviderConfigUsage
           = [Sig ''GetProviderConfigReference'' [] [Named ''xpv1.Reference'']]
       \<and> sigs ''GetResourceReference'' ProviderConfigUsage
           = [Sig ''GetResourceReference'' [] [Named ''xpv1.TypedReference'']]
       \<and> sigs ''SetProviderConfigReference'' ProviderConfigUsage
           = [Sig ''SetProviderConfigReference'' [Named ''xpv1.Reference''] []]
       \<and> sigs ''SetResourceReference'' ProviderConfigUsage
           = [Sig ''SetResourceReference'' [Named ''xpv1.TypedReference''] []]
       \<and> filter (\<lambda>c. provides ProviderConfigUsage c)
            [ProviderConfigReferencer, ManagedResourceReferencer, CompositeResourceReferencer] = []
       \<and> \<not> inhabits ne (Named ''xpv1.Reference'') VNil
       \<and> \<not> inhabits ne (Named ''xpv1.TypedReference'') VNil"
proof (intro conjI)
  show "sigs ''GetProviderConfigReference'' ProviderConfigUsage
           = [Sig ''GetProviderConfigReference'' [] [Named ''xpv1.Reference'']]"
    by code_simp
  show "sigs ''GetResourceReference'' ProviderConfigUsage
           = [Sig ''GetResourceReference'' [] [Named ''xpv1.TypedReference'']]"
    by code_simp
  show "sigs ''SetProviderConfigReference'' ProviderConfigUsage
           = [Sig ''SetProviderConfigReference'' [Named ''xpv1.Reference''] []]"
    by code_simp
  show "sigs ''SetResourceReference'' ProviderConfigUsage
           = [Sig ''SetResourceReference'' [Named ''xpv1.TypedReference''] []]"
    by code_simp
  show "filter (\<lambda>c. provides ProviderConfigUsage c)
            [ProviderConfigReferencer, ManagedResourceReferencer, CompositeResourceReferencer] = []"
    by code_simp
  show "\<not> inhabits ne (Named ''xpv1.Reference'') VNil"
    using assms(1) by simp
  show "\<not> inhabits ne (Named ''xpv1.TypedReference'') VNil"
    using assms(2) by simp
qed

text \<open>
  The theorem above at the declarations where only the interface types of the language
  are nilable names.
\<close>

theorem usage_references_required_witness:
  "\<not> builtin_interfaces ''xpv1.Reference'' \<and> \<not> builtin_interfaces ''xpv1.TypedReference''
   \<and> result_types ''GetProviderConfigReference'' ProviderConfigUsage = [Named ''xpv1.Reference'']
   \<and> \<not> inhabits builtin_interfaces (Named ''xpv1.Reference'') VNil
   \<and> \<not> inhabits builtin_interfaces (Named ''xpv1.TypedReference'') VNil"
proof -
  have a: "\<not> builtin_interfaces ''xpv1.Reference''"
    by (simp add: builtin_interfaces_def)
  have b: "\<not> builtin_interfaces ''xpv1.TypedReference''"
    by (simp add: builtin_interfaces_def)
  show ?thesis
    using a b usage_references_required [OF a b] by (simp add: result_types_def)
qed

text \<open>
  Claim C4: required and optional references differ in their types. Every type in the
  signatures of the two required capabilities is a plain named type: it is no pointer,
  nil is not a value of it, and an implementer whose getter returns values of that type
  returns nil under no sequence of Set and Get calls. Every type in the signatures
  of the optional variants is a pointer.
\<close>

theorem required_references_never_unset:
  assumes "\<not> ne ''xpv1.Reference''" and "\<not> ne ''xpv1.TypedReference''"
    and "c \<in> {RequiredProviderConfigReferencer, RequiredTypedResourceReferencer}"
    and "m \<in> set (method_set c)" and "T \<in> set (sig_types m)"
    and "getter_typed ne T a"
  shows "\<not> is_pointer T \<and> \<not> nilable ne T \<and> VNil \<notin> set (run a s cs)
       \<and> list_all (\<lambda>m. list_all is_pointer (sig_types m))
           (method_set ProviderConfigReferencer @ method_set ManagedResourceReferencer
             @ method_set CompositeResourceReferencer)"
proof -
  have ms: "method_set RequiredProviderConfigReferencer
              = [Sig ''GetProviderConfigReference'' [] [Named ''xpv1.Reference''],
                 Sig ''SetProviderConfigReference'' [Named ''xpv1.Reference''] []]"
       "method_set RequiredTypedResourceReferencer
              = [Sig ''SetResourceReference'' [Named ''xpv1.TypedReference''] [],
                 Sig ''GetResourceReference'' [] [Named ''xpv1.TypedReference'']]"
    by code_simp+
  from assms(3,4,5) have T: "T = Named ''xpv1.Reference'' \<or> T = Named ''xpv1.TypedReference''"
    by (auto simp: ms sig_types_def)
  with assms(1,2) have nn: "\<not> nilable ne T" and np: "\<not> is_pointer T"
    by auto
  from nn assms(6) have "VNil \<notin> set (run a s cs)"
    by (rule run_never_nil)
  moreover have "list_all (\<lambda>m. list_all is_pointer (sig_types m))
           (method_set ProviderConfigReferencer @ method_set ManagedResourceReferencer
             @ method_set CompositeResourceReferencer)"
    by code_simp
  ultimately show ?thesis
    using nn np by simp
qed

text \<open>
  The theorem above at an implementer that keeps the reference in a struct field.
\<close>

theorem required_references_never_unset_witness:
  "\<not> builtin_interfaces ''xpv1.Reference'' \<and> \<not> builtin_interfaces ''xpv1.TypedReference''
   \<and> Sig ''GetProviderConfigReference'' [] [Named ''xpv1.Reference'']
        \<in> set (method_set RequiredProviderConfigReferencer)
   \<and> getter_typed builtin_interfaces (Named ''xpv1.Reference'') (value_field ''xpv1.Reference'')
   \<and> \<not> nilable builtin_interfaces (Named ''xpv1.Reference'')
   \<and> VNil \<notin> set (run (value_field ''xpv1.Reference'') ''default''
                   [GetCall, SetCall (VNamed ''xpv1.Reference'' ''other''), GetCall])
   \<and> run (value_field ''xpv1.Reference'') ''default''
                   [GetCall, SetCall (VNamed ''xpv1.Reference'' ''other''), GetCall]
       = [VNamed ''xpv1.Reference'' ''default'', VNamed ''xpv1.Reference'' ''other'']"
proof -
  have a: "\<not> builtin_interfaces ''xpv1.Reference''"
    by (simp add: builtin_interfaces_def)
  have b: "\<not> builtin_interfaces ''xpv1.TypedReference''"
    by (simp add: builtin_interfaces_def)
  have c: "RequiredProviderConfigReferencer
             \<in> {RequiredProviderConfigReferencer, RequiredTypedResourceReferencer}"
    by simp
  have m: "Sig ''GetProviderConfigReference'' [] [Named ''xpv1.Reference'']
        \<in> set (method_set RequiredProviderConfigReferencer)"
    by code_simp
  have t: "Named ''xpv1.Reference''
        \<in> set (sig_types (Sig ''GetProviderConfigReference'' [] [Named ''xpv1.Reference'']))"
    by (simp add: sig_types_def)
  have g: "getter_typed builtin_interfaces (Named ''xpv1.Reference'') (value_field ''xpv1.Reference'')"
    by (rule value_field_typed)
  have r: "run (value_field ''xpv1.Reference'') ''default''
                   [GetCall, SetCall (VNamed ''xpv1.Reference'' ''other''), GetCall]
       = [VNamed ''xpv1.Reference'' ''default'', VNamed ''xpv1.Reference'' ''other'']"
    by (simp add: value_field_def)
  from required_references_never_unset [OF a b c m t g]
  show ?thesis
    using a b m g r by blast
qed

section \<open>The entities and their capabilities\<close>

text \<open>
  Claim C5, as stated: no operation of the Composed interface yields a reference to a
  Composite. It fails: Composed embeds Object and with it \<open>metav1.Object\<close>, whose
  operation GetOwnerReferences returns the owner references of the object, the
  references by which Kubernetes names the parents of an object.
\<close>

theorem composed_back_reference_counterexample:
  "Object \<in> set (capabilities Composed)
   \<and> externals Composed = [''metav1.Object'', ''runtime.Object'']
   \<and> Sig ''GetOwnerReferences'' [] [Slice (Named ''metav1.OwnerReference'')]
        \<in> set (full_method_set owner_references Composed)
   \<and> yields_reference (Sig ''GetOwnerReferences'' [] [Slice (Named ''metav1.OwnerReference'')])
   \<and> filter yields_reference (full_method_set owner_references Composed)
       = [Sig ''GetOwnerReferences'' [] [Slice (Named ''metav1.OwnerReference'')]]"
  apply (intro conjI)
  by code_simp+

text \<open>
  Claim C5, amended: a Composed resource has conditions, a connection-secret
  destination and an observed generation, and none of the capabilities of this package
  gives it a reference to its parent. Of the methods that the package declares for
  Composed none returns a reference, and Composed provides none of the referencer
  capabilities; whatever the interfaces of other modules declare, the operations of
  Composed that return a reference are those of the object metadata embedded through
  Object, and with the owner references it is GetOwnerReferences alone. The package
  keeps the relationship on the side of the Composite only: among the entities,
  Composite alone provides ComposedResourcesReferencer, whose getter returns a slice of
  object references.
\<close>

theorem composed_no_back_reference:
  "capabilities Composed
     = [Object, Conditioned, ConnectionSecretWriterTo, ConnectionDetailsPublisherTo,
        ReconciliationObserver]
   \<and> map mname (method_set Composed)
     = [''SetConditions'', ''GetCondition'',
        ''SetWriteConnectionSecretToReference'', ''GetWriteConnectionSecretToReference'',
        ''SetPublishConnectionDetailsTo'', ''GetPublishConnectionDetailsTo'',
        ''SetObservedGeneration'', ''GetObservedGeneration'']
   \<and> externals Composed = [''metav1.Object'', ''runtime.Object'']
   \<and> filter yields_reference (method_set Composed) = []
   \<and> filter (\<lambda>c. provides Composed c) referencers = []
   \<and> filter yields_reference (full_method_set ext Composed)
       = filter yields_reference (ext ''metav1.Object'' @ ext ''runtime.Object'')
   \<and> filter yields_reference (full_method_set owner_references Composed)
       = [Sig ''GetOwnerReferences'' [] [Slice (Named ''metav1.OwnerReference'')]]
   \<and> filter (\<lambda>e. provides e ComposedResourcesReferencer) entities = [Composite]
   \<and> sigs ''GetResourceReferences'' Composite
     = [Sig ''GetResourceReferences'' [] [Slice (Named ''corev1.ObjectReference'')]]
   \<and> reference_types
     = [Some ''claim.Reference'', Some ''xpv1.Reference'', Some ''xpv1.TypedReference'',
        Some ''corev1.ObjectReference'', Some ''metav1.OwnerReference'']"
proof -
  have ex: "externals Composed = [''metav1.Object'', ''runtime.Object'']"
    by code_simp
  have none: "filter yields_reference (method_set Composed) = []"
    by code_simp
  have ext: "filter yields_reference (full_method_set ext Composed)
       = filter yields_reference (ext ''metav1.Object'' @ ext ''runtime.Object'')"
    by (simp add: full_method_set_def ex none)
  have "capabilities Composed
     = [Object, Conditioned, ConnectionSecretWriterTo, ConnectionDetailsPublisherTo,
        ReconciliationObserver]"
    by code_simp
  moreover have "map mname (method_set Composed)
     = [''SetConditions'', ''GetCondition'',
        ''SetWriteConnectionSecretToReference'', ''GetWriteConnectionSecretToReference'',
        ''SetPublishConnectionDetailsTo'', ''GetPublishConnectionDetailsTo'',
        ''SetObservedGeneration'', ''GetObservedGeneration'']"
    by code_simp
  moreover have "filter (\<lambda>c. provides Composed c) referencers = []"
    by code_simp
  moreover have "filter yields_reference (full_method_set owner_references Composed)
       = [Sig ''GetOwnerReferences'' [] [Slice (Named ''metav1.OwnerReference'')]]"
    by code_simp
  moreover have "filter (\<lambda>e. provides e ComposedResourcesReferencer) entities = [Composite]"
    by code_simp
  moreover have "sigs ''GetResourceReferences'' Composite
     = [Sig ''GetResourceReferences'' [] [Slice (Named ''corev1.ObjectReference'')]]"
    by code_simp
  moreover have "reference_types
     = [Some ''claim.Reference'', Some ''xpv1.Reference'', Some ''xpv1.TypedReference'',
        Some ''corev1.ObjectReference'', Some ''metav1.OwnerReference'']"
    by code_simp
  ultimately show ?thesis
    using ex none ext by blast
qed

text \<open>
  Claim C6, as stated: the capabilities of Composite are exactly those that the data
  model lists. It fails: Composite also embeds ConnectionDetailsPublisherTo, the
  configuration for publishing the connection details to a secret store, which is not
  in the list and whose methods none of the listed capabilities has.
\<close>

theorem composite_capability_set_counterexample:
  "ConnectionDetailsPublisherTo \<in> set (capabilities Composite)
   \<and> ConnectionDetailsPublisherTo \<notin> set (concat (map snd composite_data_model))
   \<and> filter (\<lambda>c. provides c ConnectionDetailsPublisherTo) (concat (map snd composite_data_model))
       = []
   \<and> sigs ''GetPublishConnectionDetailsTo'' Composite
       = [Sig ''GetPublishConnectionDetailsTo'' []
            [Pointer (Named ''xpv1.PublishConnectionDetailsTo'')]]
   \<and> filter (\<lambda>c. c \<notin> set (concat (map snd composite_data_model))) (capabilities Composite)
       = [Object, ConnectionDetailsPublisherTo]"
  apply (intro conjI)
  by code_simp+

text \<open>
  Claim C6, amended: Composite is an Object and provides every capability that the
  data model lists, one for each item, and besides them ConnectionDetailsPublisherTo
  and nothing else; its methods are those of the listed capabilities and of
  ConnectionDetailsPublisherTo. The claim reference is a pointer, the composed resource
  references and the environment config references are slices.
\<close>

theorem composite_capability_set:
  "capabilities Composite
     = [Object, CompositionSelector, CompositionReferencer, CompositionUpdater,
        CompositionRevisionReferencer, CompositionRevisionSelector,
        ComposedResourcesReferencer, EnvironmentConfigReferencer, ClaimReferencer,
        ConnectionSecretWriterTo, ConnectionDetailsPublisherTo, Conditioned,
        ConnectionDetailsPublishedTimer, ReconciliationObserver]
   \<and> map (\<lambda>item. length (snd item)) composite_data_model = replicate 12 1
   \<and> filter (\<lambda>c. c \<notin> set (concat (map snd composite_data_model))) (capabilities Composite)
       = [Object, ConnectionDetailsPublisherTo]
   \<and> filter (\<lambda>c. c \<notin> set (capabilities Composite)) (concat (map snd composite_data_model))
       = []
   \<and> distinct (concat (map snd composite_data_model))
   \<and> filter (\<lambda>m. m \<notin> set (concat (map method_set
                  (concat (map snd composite_data_model) @ [ConnectionDetailsPublisherTo]))))
        (method_set Composite) = []
   \<and> filter (\<lambda>m. m \<notin> set (method_set Composite))
        (concat (map method_set
           (concat (map snd composite_data_model) @ [ConnectionDetailsPublisherTo]))) = []
   \<and> result_types ''GetClaimReference'' Composite = [Pointer (Named ''claim.Reference'')]
   \<and> result_types ''GetCompositionSelector'' Composite = [Pointer (Named ''metav1.LabelSelector'')]
   \<and> result_types ''GetCompositionReference'' Composite = [Pointer (Named ''corev1.ObjectReference'')]
   \<and> result_types ''GetCompositionRevisionReference'' Composite
        = [Pointer (Named ''corev1.ObjectReference'')]
   \<and> result_types ''GetCompositionRevisionSelector'' Composite
        = [Pointer (Named ''metav1.LabelSelector'')]
   \<and> result_types ''GetCompositionUpdatePolicy'' Composite = [Pointer (Named ''xpv1.UpdatePolicy'')]
   \<and> result_types ''GetResourceReferences'' Composite = [Slice (Named ''corev1.ObjectReference'')]
   \<and> result_types ''GetEnvironmentConfigReferences'' Composite
        = [Slice (Named ''corev1.ObjectReference'')]
   \<and> result_types ''GetWriteConnectionSecretToReference'' Composite
        = [Pointer (Named ''xpv1.SecretReference'')]
   \<and> result_types ''GetPublishConnectionDetailsTo'' Composite
        = [Pointer (Named ''xpv1.PublishConnectionDetailsTo'')]
   \<and> result_types ''GetConnectionDetailsLastPublishedTime'' Composite
        = [Pointer (Named ''metav1.Time'')]
   \<and> result_types ''GetObservedGeneration'' Composite = [Named ''int64'']
   \<and> result_types ''GetCondition'' Composite = [Named ''xpv1.Condition'']"
  apply (intro conjI)
  by code_simp+

text \<open>
  Claim C7: CompositeClaim and Composite embed the same five capabilities that select
  a composition, with the same signatures. The claim has in addition a composite delete
  policy and a single reference to a composite resource, a pointer; it has no list of
  composed resources, which only the Composite has.
\<close>

theorem claim_mirrors_composite_selection:
  "filter (\<lambda>c. c \<in> set composition_selection) (capabilities Composite) = composition_selection
   \<and> filter (\<lambda>c. c \<in> set composition_selection) (capabilities CompositeClaim)
       = composition_selection
   \<and> map (\<lambda>m. sigs (mname m) Composite) (concat (map method_set composition_selection))
       = map (\<lambda>m. [m]) (concat (map method_set composition_selection))
   \<and> map (\<lambda>m. sigs (mname m) CompositeClaim) (concat (map method_set composition_selection))
       = map (\<lambda>m. [m]) (concat (map method_set composition_selection))
   \<and> filter (\<lambda>c. provides CompositeClaim c \<and> \<not> provides Composite c)
        [CompositeResourceDeleter, CompositeResourceReferencer, ComposedResourcesReferencer]
       = [CompositeResourceDeleter, CompositeResourceReferencer]
   \<and> filter (\<lambda>c. provides Composite c \<and> \<not> provides CompositeClaim c)
        [CompositeResourceDeleter, CompositeResourceReferencer, ComposedResourcesReferencer]
       = [ComposedResourcesReferencer]
   \<and> sigs ''GetCompositeDeletePolicy'' CompositeClaim
       = [Sig ''GetCompositeDeletePolicy'' [] [Pointer (Named ''xpv1.CompositeDeletePolicy'')]]
   \<and> sigs ''GetResourceReference'' CompositeClaim
       = [Sig ''GetResourceReference'' [] [Pointer (Named ''corev1.ObjectReference'')]]
   \<and> sigs ''GetResourceReferences'' CompositeClaim = []"
  apply (intro conjI)
  by code_simp+

text \<open>
  Claim C9: AddFinalizer and RemoveFinalizer take a context and an Object and return
  an error only. Object asks for no method and no capability of this package, only for
  the Kubernetes object metadata and runtime identity, and every entity interface
  provides it.
\<close>

theorem finalizer_accepts_any_object:
  "map mname (method_set Finalizer) = [''AddFinalizer'', ''RemoveFinalizer'']
   \<and> map params (method_set Finalizer)
       = [[Named ''context.Context'', Iface Object], [Named ''context.Context'', Iface Object]]
   \<and> map results (method_set Finalizer) = [[Named ''error''], [Named ''error'']]
   \<and> method_set Object = []
   \<and> capabilities Object = []
   \<and> externals Object = [''metav1.Object'', ''runtime.Object'']
   \<and> filter (\<lambda>e. provides e Object) entities = entities
   \<and> entities = [Managed, ProviderConfig, ProviderConfigUsage, Composite, Composed, CompositeClaim]"
  apply (intro conjI)
  by code_simp+

text \<open>
  Claim C10: among the entity interfaces ProviderConfigUsage is the only one without the
  Conditioned capability. Its methods are the getters and setters of its two required
  references; none of them takes or returns a condition.
\<close>

theorem usage_only_entity_without_conditions:
  "filter (\<lambda>e. \<not> provides e Conditioned) entities = [ProviderConfigUsage]
   \<and> filter (\<lambda>e. sigs ''SetConditions'' e = [] \<or> sigs ''GetCondition'' e = []) entities
       = [ProviderConfigUsage]
   \<and> method_set ProviderConfigUsage
       = [Sig ''GetProviderConfigReference'' [] [Named ''xpv1.Reference''],
          Sig ''SetProviderConfigReference'' [Named ''xpv1.Reference''] [],
          Sig ''SetResourceReference'' [Named ''xpv1.TypedReference''] [],
          Sig ''GetResourceReference'' [] [Named ''xpv1.TypedReference'']]
   \<and> externals ProviderConfigUsage = [''metav1.Object'', ''runtime.Object'']
   \<and> filter (\<lambda>m. list_ex (\<lambda>T. base_name T \<in> {Some ''xpv1.Condition'', Some ''xpv1.ConditionType''})
                  (sig_types m)) (method_set ProviderConfigUsage) = []"
  apply (intro conjI)
  by code_simp+

section \<open>Connection-secret destinations\<close>

text \<open>
  Modelled from the spec: the struct types \<open>xpv1.LocalSecretReference\<close> and
  \<open>xpv1.SecretReference\<close> are declared in package apis/common/v1, which is not among
  the sources. After the specification (the connection-secret destination of a claim is
  local-namespace only) and the comments on the two capabilities in interfaces.go (one
  writes a connection secret "to its own namespace", the other "to an arbitrary
  namespace"), a local secret reference holds the name of the secret, a secret
  reference its name and its namespace.
\<close>

record LocalSecretReference =
  local_secret_name :: string

record SecretReference =
  secret_name :: string
  secret_namespace :: string

definition struct_fields :: "string \<Rightarrow> string list" where
  "struct_fields n =
    (if n = ''xpv1.LocalSecretReference'' then [''Name'']
     else if n = ''xpv1.SecretReference'' then [''Name'', ''Namespace'']
     else [])"

text \<open>
  Modelled from the spec: the namespace and the name of the secret that is written, for
  a local reference held by an object of namespace \<open>own\<close>, and for a secret reference.
\<close>

definition local_destination :: "string \<Rightarrow> LocalSecretReference \<Rightarrow> string \<times> string" where
  "local_destination own r = (own, local_secret_name r)"

definition destination :: "SecretReference \<Rightarrow> string \<times> string" where
  "destination r = (secret_namespace r, secret_name r)"

text \<open>
  Claim C8: the connection-secret destination of a claim is local to its namespace.
  CompositeClaim writes its connection secret through LocalConnectionSecretWriterTo,
  whose reference type has no namespace, so that the secret goes to the namespace of the
  claim; Composite writes through ConnectionSecretWriterTo, whose reference names the
  namespace.
\<close>

theorem claim_secret_destination_local:
  "result_types ''GetWriteConnectionSecretToReference'' CompositeClaim
     = [Pointer (Named ''xpv1.LocalSecretReference'')]
   \<and> result_types ''GetWriteConnectionSecretToReference'' Composite
     = [Pointer (Named ''xpv1.SecretReference'')]
   \<and> filter (\<lambda>c. provides CompositeClaim c) [LocalConnectionSecretWriterTo, ConnectionSecretWriterTo]
     = [LocalConnectionSecretWriterTo]
   \<and> filter (\<lambda>c. provides Composite c) [LocalConnectionSecretWriterTo, ConnectionSecretWriterTo]
     = [ConnectionSecretWriterTo]
   \<and> filter (\<lambda>e. provides e LocalConnectionSecretWriterTo) entities = [CompositeClaim]
   \<and> ''Namespace'' \<notin> set (struct_fields ''xpv1.LocalSecretReference'')
   \<and> ''Namespace'' \<in> set (struct_fields ''xpv1.SecretReference'')
   \<and> fst (local_destination own r) = own
   \<and> fst (destination \<lparr>secret_name = n, secret_namespace = ns\<rparr>) = ns"
proof (intro conjI)
  show "result_types ''GetWriteConnectionSecretToReference'' CompositeClaim
     = [Pointer (Named ''xpv1.LocalSecretReference'')]"
    by code_simp
  show "result_types ''GetWriteConnectionSecretToReference'' Composite
     = [Pointer (Named ''xpv1.SecretReference'')]"
    by code_simp
  show "filter (\<lambda>c. provides CompositeClaim c) [LocalConnectionSecretWriterTo, ConnectionSecretWriterTo]
     = [LocalConnectionSecretWriterTo]"
    by code_simp
  show "filter (\<lambda>c. provides Composite c) [LocalConnectionSecretWriterTo, ConnectionSecretWriterTo]
     = [ConnectionSecretWriterTo]"
    by code_simp
  show "filter (\<lambda>e. provides e LocalConnectionSecretWriterTo) entities = [CompositeClaim]"
    by code_simp
  show "''Namespace'' \<notin> set (struct_fields ''xpv1.LocalSecretReference'')"
    by (simp add: struct_fields_def)
  show "''Namespace'' \<in> set (struct_fields ''xpv1.SecretReference'')"
    by (simp add: struct_fields_def)
  show "fst (local_destination own r) = own"
    by (simp add: local_destination_def)
  show "fst (destination \<lparr>secret_name = n, secret_namespace = ns\<rparr>) = ns"
    by (simp add: destination_def)
qed

section \<open>The provider config usage ledger\<close>

text \<open>
  Modelled from the spec: the ledger operations RecordUsage, RemoveUsage and
  RefreshUserCount, the store of objects they work on and the errors they return are
  not among the sources; interfaces.go declares only what they use, UserCounter
  (SetUsers, GetUsers on an int64) and ProviderConfigUsage with its two required
  references. The definitions follow sections 3, 4.3, 4.4, 5, 6 and 7 of the
  specification.
\<close>

datatype error = Conflict | NotFound | ReferenceUnresolvable | InUse | PolicyViolation

record Reference =
  ref_kind :: string
  ref_namespace :: "string option"
  ref_name :: string

text \<open>
  Modelled from the spec: an object has an identity and a resource version, which the
  store uses for optimistic concurrency; a ProviderConfig carries the counter users.
\<close>

record ProviderConfigObject =
  config_ref :: Reference
  resourceVersion :: nat
  users :: "64 word"

definition GetUsers :: "ProviderConfigObject \<Rightarrow> 64 word" where
  "GetUsers c = users c"

definition SetUsers :: "64 word \<Rightarrow> ProviderConfigObject \<Rightarrow> ProviderConfigObject" where
  "SetUsers i c = c\<lparr>users := i\<rparr>"

record Usage =
  providerConfigRef :: Reference
  resourceRef :: Reference
  usageVersion :: nat

record ManagedObject =
  managed_ref :: Reference
  managed_providerConfigRef :: "Reference option"

text \<open>
  Modelled from the spec: the backing object store, with the provider configs by
  identity, the usage records, and the revision from which the store numbers the
  versions of the objects it writes.
\<close>

record store =
  configs :: "Reference \<rightharpoonup> ProviderConfigObject"
  usages :: "Usage list"
  revision :: nat

definition usage_count :: "store \<Rightarrow> Reference \<Rightarrow> nat" where
  "usage_count st pc = length (filter (\<lambda>u. providerConfigRef u = pc) (usages st))"

definition is_usage_of :: "Reference \<Rightarrow> Reference \<Rightarrow> Usage \<Rightarrow> bool" where
  "is_usage_of pc r u = (providerConfigRef u = pc \<and> resourceRef u = r)"

text \<open>
  Modelled from the spec: the write operations of the store (section 6). An update is
  made with the version at which the object was read and fails with Conflict when the
  stored object has another version, with NotFound when it is gone; each write that
  succeeds gives the object a new version.
\<close>

definition Update :: "ProviderConfigObject \<Rightarrow> store \<Rightarrow> error + store" where
  "Update c st =
    (case configs st (config_ref c) of
       None \<Rightarrow> Inl NotFound
     | Some cur \<Rightarrow>
        if resourceVersion cur \<noteq> resourceVersion c then Inl Conflict
        else Inr (st\<lparr>configs := (configs st)(config_ref c \<mapsto> c\<lparr>resourceVersion := Suc (revision st)\<rparr>),
                      revision := Suc (revision st)\<rparr>))"

definition Create :: "Usage \<Rightarrow> store \<Rightarrow> error + store" where
  "Create u st =
    (if list_ex (is_usage_of (providerConfigRef u) (resourceRef u)) (usages st) then Inl Conflict
     else Inr (st\<lparr>usages := usages st @ [u\<lparr>usageVersion := Suc (revision st)\<rparr>],
                   revision := Suc (revision st)\<rparr>))"

definition Delete :: "Usage \<Rightarrow> store \<Rightarrow> error + store" where
  "Delete u st =
    (if u \<in> set (usages st)
     then Inr (st\<lparr>usages := removeAll u (usages st), revision := Suc (revision st)\<rparr>)
     else if list_ex (is_usage_of (providerConfigRef u) (resourceRef u)) (usages st) then Inl Conflict
     else Inl NotFound)"

text \<open>
  Modelled from the spec: deleting the records that were read, one by one; a record
  that is gone counts as deleted (section 7: NotFound on a delete path).
\<close>

fun DeleteAll :: "Usage list \<Rightarrow> store \<Rightarrow> error + store" where
  "DeleteAll [] st = Inr st"
| "DeleteAll (u # us) st =
    (case Delete u st of
       Inr st' \<Rightarrow> DeleteAll us st'
     | Inl e \<Rightarrow> if e = NotFound then DeleteAll us st else Inl e)"

text \<open>
  The operations of the ledger read the store and then write it; between the two,
  other callers may have used the store. The first argument of each operation is what
  the other callers did to the store between its read and its write; it is the
  identity when the operation runs alone.
\<close>

text \<open>
  Modelled from the spec: RecordUsage "creates or confirms a Usage record naming the
  ProviderConfig of the managed resource and the managed resource itself"; it fails
  with ReferenceUnresolvable when the ProviderConfig does not exist. It is missing from
  the sources.
\<close>

definition RecordUsage :: "(store \<Rightarrow> store) \<Rightarrow> ManagedObject \<Rightarrow> store \<Rightarrow> error + store" where
  "RecordUsage others mg st =
    (case managed_providerConfigRef mg of
       None \<Rightarrow> Inl ReferenceUnresolvable
     | Some pc \<Rightarrow>
        (case configs st pc of
           None \<Rightarrow> Inl ReferenceUnresolvable
         | Some c \<Rightarrow>
            if list_ex (is_usage_of pc (managed_ref mg)) (usages st) then Inr (others st)
            else Create \<lparr>providerConfigRef = pc, resourceRef = managed_ref mg, usageVersion = 0\<rparr>
                   (others st)))"

text \<open>
  Modelled from the spec: RemoveUsage "deletes the Usage record for the managed
  resource, if present; idempotent". It is missing from the sources.
\<close>

definition RemoveUsage :: "(store \<Rightarrow> store) \<Rightarrow> ManagedObject \<Rightarrow> store \<Rightarrow> error + store" where
  "RemoveUsage others mg st =
    DeleteAll (filter (\<lambda>u. resourceRef u = managed_ref mg) (usages st)) (others st)"

text \<open>
  Modelled from the spec: RefreshUserCount, given a ProviderConfig as its caller read
  it, "recomputes users by counting live Usage records and persists it only if
  changed"; the write is an update at the version of the object given. It is missing
  from the sources; the count is converted to the int64 of SetUsers.
\<close>

definition RefreshUserCount ::
    "(store \<Rightarrow> store) \<Rightarrow> ProviderConfigObject \<Rightarrow> store \<Rightarrow> error + store" where
  "RefreshUserCount others c st =
    (let n = word_of_nat (usage_count st (config_ref c)) in
     if GetUsers c = n then Inr (others st)
     else Update (SetUsers n c) (others st))"

text \<open>
  The invariant of the ledger as the data model states it, and the states that the
  three operations reach, run one at a time, from a store without usage records in
  which the invariant holds.
\<close>

definition ledger_consistent :: "store \<Rightarrow> bool" where
  "ledger_consistent st =
    (\<forall>pc c. configs st pc = Some c \<longrightarrow> sint (GetUsers c) = int (usage_count st pc))"

inductive reachable :: "store \<Rightarrow> bool" where
  start: "usages st = [] \<Longrightarrow> ledger_consistent st \<Longrightarrow> reachable st"
| record_usage: "reachable st \<Longrightarrow> RecordUsage (\<lambda>s. s) mg st = Inr st' \<Longrightarrow> reachable st'"
| remove_usage: "reachable st \<Longrightarrow> RemoveUsage (\<lambda>s. s) mg st = Inr st' \<Longrightarrow> reachable st'"
| refresh: "reachable st \<Longrightarrow> configs st pc = Some c
    \<Longrightarrow> RefreshUserCount (\<lambda>s. s) c st = Inr st' \<Longrightarrow> reachable st'"

text \<open>The scenario of the specification: a provider config and one managed resource.\<close>

definition pc1 :: Reference where
  "pc1 = \<lparr>ref_kind = ''ProviderConfig'', ref_namespace = None, ref_name = ''pc1''\<rparr>"

definition managed1 :: ManagedObject where
  "managed1 =
    \<lparr>managed_ref = \<lparr>ref_kind = ''Managed'', ref_namespace = None, ref_name = ''managed1''\<rparr>,
     managed_providerConfigRef = Some pc1\<rparr>"

definition config0 :: ProviderConfigObject where
  "config0 = \<lparr>config_ref = pc1, resourceVersion = 0, users = 0\<rparr>"

definition usage1 :: Usage where
  "usage1 = \<lparr>providerConfigRef = pc1, resourceRef = managed_ref managed1, usageVersion = 1\<rparr>"

definition store0 :: store where
  "store0 = \<lparr>configs = [pc1 \<mapsto> config0], usages = [], revision = 0\<rparr>"

definition store1 :: store where
  "store1 = \<lparr>configs = [pc1 \<mapsto> config0], usages = [usage1], revision = 1\<rparr>"

text \<open>
  What another caller does in the scenario while a refresh of pc1 is between its read
  and its write: it refreshes pc1 itself.
\<close>

definition other_refresh :: "store \<Rightarrow> store" where
  "other_refresh st =
    (case RefreshUserCount (\<lambda>s. s) config0 st of Inr st' \<Rightarrow> st' | Inl e \<Rightarrow> st)"

lemma sint_count: "n < 2 ^ 63 \<Longrightarrow> sint (word_of_nat n :: 64 word) = int n"
  by (simp add: signed_of_nat signed_take_bit_int_eq_self)

lemma store0_consistent: "ledger_consistent store0"
  by (simp add: ledger_consistent_def store0_def usage_count_def GetUsers_def config0_def)

lemma record_store0: "RecordUsage (\<lambda>s. s) managed1 store0 = Inr store1"
  by (simp add: RecordUsage_def Create_def managed1_def store0_def store1_def usage1_def)

lemma count_store1: "usage_count store1 pc1 = 1"
  by (simp add: usage_count_def store1_def usage1_def)

lemma Create_configs: "Create u st = Inr st' \<Longrightarrow> configs st' = configs st"
  by (auto simp: Create_def split: if_splits)

lemma Delete_configs: "Delete u st = Inr st' \<Longrightarrow> configs st' = configs st"
  by (auto simp: Delete_def split: if_splits)

lemma DeleteAll_configs: "DeleteAll us st = Inr st' \<Longrightarrow> configs st' = configs st"
proof (induction us arbitrary: st)
  case Nil
  then show ?case by simp
next
  case (Cons u us)
  show ?case
  proof (cases "Delete u st")
    case (Inl e)
    with Cons.prems have "DeleteAll us st = Inr st'"
      by (simp split: if_splits)
    then show ?thesis
      by (rule Cons.IH)
  next
    case (Inr st1)
    with Cons.prems have "DeleteAll us st1 = Inr st'"
      by simp
    then have "configs st' = configs st1"
      by (rule Cons.IH)
    with Inr show ?thesis
      by (simp add: Delete_configs)
  qed
qed

lemma RecordUsage_configs:
  "RecordUsage others mg st = Inr st' \<Longrightarrow> configs st' = configs (others st)"
  by (auto simp: RecordUsage_def split: option.splits if_splits dest: Create_configs)

lemma RemoveUsage_configs:
  "RemoveUsage others mg st = Inr st' \<Longrightarrow> configs st' = configs (others st)"
  unfolding RemoveUsage_def by (rule DeleteAll_configs)

text \<open>
  Claim C1, as stated: in every reachable state the users counter of a provider config
  equals the number of usage records that name it. It fails in the scenario of the
  specification, with one caller only: after RecordUsage for managed1 and before
  RefreshUserCount the counter of pc1 is 0 and one usage record names pc1.
\<close>

theorem ledger_invariant_counterexample:
  "reachable store0
   \<and> RecordUsage (\<lambda>s. s) managed1 store0 = Inr store1
   \<and> reachable store1
   \<and> map_option GetUsers (configs store1 pc1) = Some 0
   \<and> usage_count store1 pc1 = 1
   \<and> \<not> ledger_consistent store1"
proof -
  have r0: "reachable store0"
    by (rule reachable.start) (simp_all add: store0_def store0_consistent [unfolded store0_def])
  have r1: "reachable store1"
    using r0 record_store0 by (rule reachable.record_usage)
  have u: "map_option GetUsers (configs store1 pc1) = Some 0"
    by (simp add: store1_def GetUsers_def config0_def)
  have "\<not> ledger_consistent store1"
  proof
    assume "ledger_consistent store1"
    moreover have "configs store1 pc1 = Some config0"
      by (simp add: store1_def)
    ultimately have "sint (GetUsers config0) = int (usage_count store1 pc1)"
      unfolding ledger_consistent_def by blast
    then show False
      by (simp add: count_store1 GetUsers_def config0_def)
  qed
  with r0 r1 u record_store0 count_store1 show ?thesis
    by simp
qed

text \<open>
  Claim C1, amended. RefreshUserCount is given a provider config as it was read and
  counts the usage records that name it. If the stored object is still the one given
  when the refresh writes (no other caller has changed it since it was read), the
  refresh succeeds, and the stored counter is then the number of records counted,
  whatever the counter was before (the count fits an int64 below \<open>2^63\<close>); it changes
  no usage record and no other provider config; and if no other caller has added or
  removed a usage record of this provider config meanwhile, the counter equals the
  number of records in the state after the refresh. If the stored object has another
  resource version when the refresh has to write, the refresh fails with Conflict. A
  RecordUsage or RemoveUsage that succeeds writes usage records only and no counter. So
  the equality holds after an undisturbed refresh, and not in the states between a
  change of the records and the next such refresh.
\<close>

theorem refresh_recomputes_user_count:
  "(configs (others st) (config_ref c) = Some c \<and> usage_count st (config_ref c) < 2 ^ 63
      \<longrightarrow> (\<exists>st' d. RefreshUserCount others c st = Inr st'
             \<and> configs st' (config_ref c) = Some d
             \<and> GetUsers d = word_of_nat (usage_count st (config_ref c))
             \<and> sint (GetUsers d) = int (usage_count st (config_ref c))
             \<and> usages st' = usages (others st)
             \<and> (\<forall>q. q \<noteq> config_ref c \<longrightarrow> configs st' q = configs (others st) q)
             \<and> (usage_count (others st) (config_ref c) = usage_count st (config_ref c)
                  \<longrightarrow> sint (GetUsers d) = int (usage_count st' (config_ref c)))))
   \<and> (configs (others st) (config_ref c) = Some e \<and> resourceVersion e \<noteq> resourceVersion c
        \<and> GetUsers c \<noteq> word_of_nat (usage_count st (config_ref c))
      \<longrightarrow> RefreshUserCount others c st = Inl Conflict)
   \<and> (RecordUsage others mg st = Inr st2 \<longrightarrow> configs st2 = configs (others st))
   \<and> (RemoveUsage others mg st = Inr st3 \<longrightarrow> configs st3 = configs (others st))"
proof (intro conjI impI)
  let ?pc = "config_ref c"
  let ?n = "word_of_nat (usage_count st ?pc) :: 64 word"
  assume a: "configs (others st) ?pc = Some c \<and> usage_count st ?pc < 2 ^ 63"
  then have s: "sint ?n = int (usage_count st ?pc)"
    by (simp add: sint_count)
  show "\<exists>st' d. RefreshUserCount others c st = Inr st'
             \<and> configs st' ?pc = Some d
             \<and> GetUsers d = ?n
             \<and> sint (GetUsers d) = int (usage_count st ?pc)
             \<and> usages st' = usages (others st)
             \<and> (\<forall>q. q \<noteq> ?pc \<longrightarrow> configs st' q = configs (others st) q)
             \<and> (usage_count (others st) ?pc = usage_count st ?pc
                  \<longrightarrow> sint (GetUsers d) = int (usage_count st' ?pc))"
  proof (cases "GetUsers c = ?n")
    case True
    then have "RefreshUserCount others c st = Inr (others st)"
      by (simp add: RefreshUserCount_def)
    with True s a show ?thesis
      by auto
  next
    case False
    let ?d = "(SetUsers ?n c)\<lparr>resourceVersion := Suc (revision (others st))\<rparr>"
    let ?st = "(others st)\<lparr>configs := (configs (others st))(?pc \<mapsto> ?d),
                 revision := Suc (revision (others st))\<rparr>"
    have r: "RefreshUserCount others c st = Inr ?st"
      using a False by (simp add: RefreshUserCount_def Update_def SetUsers_def)
    have g: "GetUsers ?d = ?n"
      by (simp add: GetUsers_def SetUsers_def)
    have u: "usage_count ?st ?pc = usage_count (others st) ?pc"
      by (simp add: usage_count_def)
    show ?thesis
      using r g s u by (intro exI [of _ ?st] exI [of _ ?d]) simp
  qed
next
  assume "configs (others st) (config_ref c) = Some e \<and> resourceVersion e \<noteq> resourceVersion c
        \<and> GetUsers c \<noteq> word_of_nat (usage_count st (config_ref c))"
  then show "RefreshUserCount others c st = Inl Conflict"
    by (simp add: RefreshUserCount_def Update_def SetUsers_def)
next
  assume "RecordUsage others mg st = Inr st2"
  then show "configs st2 = configs (others st)"
    by (rule RecordUsage_configs)
next
  assume "RemoveUsage others mg st = Inr st3"
  then show "configs st3 = configs (others st)"
    by (rule RemoveUsage_configs)
qed

text \<open>
  The theorem above in the scenario, at the state after RecordUsage. Run alone, the
  refresh of pc1 sets its counter to 1. When another caller refreshes pc1 between the
  read and the write, the stored object has a new version and the refresh fails with
  Conflict.
\<close>

theorem refresh_recomputes_user_count_witness:
  "configs store1 (config_ref config0) = Some config0
   \<and> usage_count store1 (config_ref config0) < 2 ^ 63
   \<and> (\<exists>st' d. RefreshUserCount (\<lambda>s. s) config0 store1 = Inr st'
          \<and> configs st' pc1 = Some d
          \<and> GetUsers d = 1
          \<and> usage_count st' pc1 = 1)
   \<and> map_option resourceVersion (configs (other_refresh store1) (config_ref config0)) = Some 2
   \<and> resourceVersion config0 = 0
   \<and> GetUsers config0 \<noteq> word_of_nat (usage_count store1 (config_ref config0))
   \<and> RefreshUserCount other_refresh config0 store1 = Inl Conflict
   \<and> RecordUsage (\<lambda>s. s) managed1 store0 = Inr store1
   \<and> configs store1 = configs store0"
proof -
  have ref: "config_ref config0 = pc1"
    by (simp add: config0_def)
  have a: "configs store1 (config_ref config0) = Some config0"
    by (simp add: store1_def config0_def)
  have b: "usage_count store1 (config_ref config0) < 2 ^ 63"
    by (simp add: ref count_store1)
  have o: "other_refresh store1
      = \<lparr>configs = [pc1 \<mapsto> \<lparr>config_ref = pc1, resourceVersion = 2, users = 1\<rparr>],
         usages = [usage1], revision = 2\<rparr>"
    by (simp add: other_refresh_def RefreshUserCount_def Update_def SetUsers_def GetUsers_def
        ref count_store1) (simp add: store1_def config0_def numeral_2_eq_2)
  have v: "map_option resourceVersion (configs (other_refresh store1) (config_ref config0)) = Some 2"
    by (simp add: o ref)
  have e: "configs (other_refresh store1) (config_ref config0)
      = Some \<lparr>config_ref = pc1, resourceVersion = 2, users = 1\<rparr>"
    by (simp add: o ref)
  have z: "resourceVersion config0 = 0"
    by (simp add: config0_def)
  have g: "GetUsers config0 \<noteq> word_of_nat (usage_count store1 (config_ref config0))"
    by (simp add: ref count_store1 GetUsers_def config0_def)
  note t = refresh_recomputes_user_count
  from t [of "\<lambda>s. s" store1 config0] a b
  obtain st' d where r: "RefreshUserCount (\<lambda>s. s) config0 store1 = Inr st'"
    and c: "configs st' (config_ref config0) = Some d"
    and n: "GetUsers d = word_of_nat (usage_count store1 (config_ref config0))"
    and u: "usages st' = usages store1"
    by blast
  from n have "GetUsers d = 1"
    by (simp add: ref count_store1)
  moreover from u have "usage_count st' pc1 = 1"
    using count_store1 by (simp add: usage_count_def)
  moreover from t [of other_refresh store1 config0
      "\<lparr>config_ref = pc1, resourceVersion = 2, users = 1\<rparr>"] e z g
  have "RefreshUserCount other_refresh config0 store1 = Inl Conflict"
    by simp
  moreover from t [where others = "\<lambda>s. s" and st = store0 and mg = managed1 and ?st2.0 = store1]
      record_store0
  have "configs store1 = configs store0"
    by simp
  ultimately show ?thesis
    using a b r c v z g record_store0 by (auto simp: ref)
qed

text \<open>
  The scenario of the specification in full, with one caller: record, refresh (users
  is 1), remove, refresh (users is 0 again).
\<close>

lemma scenario_record_refresh_remove_refresh:
  "RecordUsage (\<lambda>s. s) managed1 store0 = Inr store1"
  "RefreshUserCount (\<lambda>s. s) config0 store1
     = Inr \<lparr>configs = [pc1 \<mapsto> \<lparr>config_ref = pc1, resourceVersion = 2, users = 1\<rparr>],
            usages = [usage1], revision = 2\<rparr>"
  "RemoveUsage (\<lambda>s. s) managed1
       \<lparr>configs = [pc1 \<mapsto> \<lparr>config_ref = pc1, resourceVersion = 2, users = 1\<rparr>],
        usages = [usage1], revision = 2\<rparr>
     = Inr \<lparr>configs = [pc1 \<mapsto> \<lparr>config_ref = pc1, resourceVersion = 2, users = 1\<rparr>],
            usages = [], revision = 3\<rparr>"
  "RefreshUserCount (\<lambda>s. s) \<lparr>config_ref = pc1, resourceVersion = 2, users = 1\<rparr>
       \<lparr>configs = [pc1 \<mapsto> \<lparr>config_ref = pc1, resourceVersion = 2, users = 1\<rparr>],
        usages = [], revision = 3\<rparr>
     = Inr \<lparr>configs = [pc1 \<mapsto> \<lparr>config_ref = pc1, resourceVersion = 4, users = 0\<rparr>],
            usages = [], revision = 4\<rparr>"
proof -
  show "RecordUsage (\<lambda>s. s) managed1 store0 = Inr store1"
    by (rule record_store0)
  show "RefreshUserCount (\<lambda>s. s) config0 store1
     = Inr \<lparr>configs = [pc1 \<mapsto> \<lparr>config_ref = pc1, resourceVersion = 2, users = 1\<rparr>],
            usages = [usage1], revision = 2\<rparr>"
    by (simp add: RefreshUserCount_def Update_def SetUsers_def GetUsers_def store1_def
        config0_def usage_count_def usage1_def numeral_2_eq_2)
  show "RemoveUsage (\<lambda>s. s) managed1
       \<lparr>configs = [pc1 \<mapsto> \<lparr>config_ref = pc1, resourceVersion = 2, users = 1\<rparr>],
        usages = [usage1], revision = 2\<rparr>
     = Inr \<lparr>configs = [pc1 \<mapsto> \<lparr>config_ref = pc1, resourceVersion = 2, users = 1\<rparr>],
            usages = [], revision = 3\<rparr>"
    by (simp add: RemoveUsage_def Delete_def usage1_def)
  show "RefreshUserCount (\<lambda>s. s) \<lparr>config_ref = pc1, resourceVersion = 2, users = 1\<rparr>
       \<lparr>configs = [pc1 \<mapsto> \<lparr>config_ref = pc1, resourceVersion = 2, users = 1\<rparr>],
        usages = [], revision = 3\<rparr>
     = Inr \<lparr>configs = [pc1 \<mapsto> \<lparr>config_ref = pc1, resourceVersion = 4, users = 0\<rparr>],
            usages = [], revision = 4\<rparr>"
    by (simp add: RefreshUserCount_def Update_def SetUsers_def GetUsers_def usage_count_def)
qed

end
